theory Spec2Isabelle
  imports Complex_Main "HOL-Library.Signed_Division"
begin

section \<open>The scene viewer of draw\_scene.cc\<close>

text \<open>
  The program is one translation unit, draw\_scene.cc. Its input callbacks act on two
  global pointers and on the function-local statics of the mouse callback; the model
  passes them around as one record. Calls into the windowing library, the graphics
  device and the classes of the headers that are not part of draw\_scene.cc are recorded
  as events, in the order in which the code issues them.

  Values of type float and double are modelled by the real numbers they denote, so
  rounding is not part of the model; the conversions between int and double that the
  code performs are written out.
\<close>

subsection \<open>Constants of the windowing library\<close>

text \<open>The key and action codes of GLFW 3 that the code names.\<close>

definition GLFW_RELEASE :: int where "GLFW_RELEASE = 0"
definition GLFW_PRESS :: int where "GLFW_PRESS = 1"
definition GLFW_REPEAT :: int where "GLFW_REPEAT = 2"
definition GLFW_KEY_A :: int where "GLFW_KEY_A = 65"
definition GLFW_KEY_D :: int where "GLFW_KEY_D = 68"
definition GLFW_KEY_S :: int where "GLFW_KEY_S = 83"
definition GLFW_KEY_W :: int where "GLFW_KEY_W = 87"
definition GLFW_KEY_ESCAPE :: int where "GLFW_KEY_ESCAPE = 256"

subsection \<open>Errors\<close>

datatype error =
    NullPointerDereference  \<comment> \<open>a member call through a pointer that is still nullptr\<close>
  | OutOfRange              \<comment> \<open>std::out\_of\_range thrown by vector::at\<close>
  | ArrayOutOfBounds        \<comment> \<open>a read past the end of a plain array\<close>
  | ConversionOverflow      \<comment> \<open>a double whose truncation does not fit an int\<close>
  | EigenAssertion          \<comment> \<open>a block outside its matrix, or of another size than its source\<close>
  | Fatal string            \<comment> \<open>LOG(FATAL): the message is logged and the process aborted\<close>

subsection \<open>The camera controller\<close>

text \<open>
  Modelled from the spec: wvu::CameraController, whose source camera\_controller.cc is
  included by draw\_scene.cc but is not among the sources. The spec gives it the four
  movers, the two rotation mutators, the zoom mutator and a read-only rotation
  sensitivity. The model keeps the sensitivity and the list of mutator calls received.
\<close>

datatype controller_call =
    MoveFront | MoveBack | MoveLeft | MoveRight
  | AddYawOffset real | AddPitchOffset real | AdjustZoom real

record CameraController =
  rotation_sensitivity :: real
  calls :: "controller_call list"

definition invoke :: "controller_call \<Rightarrow> CameraController \<Rightarrow> CameraController" where
  "invoke c cc = cc\<lparr>calls := calls cc @ [c]\<rparr>"

subsection \<open>Global state of the callbacks\<close>

record program_state =
  camera_controller_ptr :: "CameraController option"  \<comment> \<open>None is nullptr\<close>
  movement_vector_ptr :: "bool list option"           \<comment> \<open>None is nullptr\<close>
  window_should_close :: bool                         \<comment> \<open>the close flag of the window\<close>
  last_x_position :: int
  last_y_position :: int
  first_call :: bool

text \<open>The state at program start: both pointers null, the statics of MouseCallback as
  initialised, the window not asked to close.\<close>

definition initial_state :: program_state where
  "initial_state =
     \<lparr>camera_controller_ptr = None, movement_vector_ptr = None,
      window_should_close = False,
      last_x_position = 0, last_y_position = 0, first_call = True\<rparr>"

definition controller_call_through_ptr ::
  "controller_call \<Rightarrow> program_state \<Rightarrow> error + program_state" where
  "controller_call_through_ptr c s =
     (case camera_controller_ptr s of
        None \<Rightarrow> Inl NullPointerDereference
      | Some cc \<Rightarrow> Inr (s\<lparr>camera_controller_ptr := Some (invoke c cc)\<rparr>))"

text \<open>\<open>movement_vector_ptr->at(key)\<close> as a read; a negative int converts to a size
  beyond any vector, so it throws as well.\<close>

definition movement_vector_at :: "int \<Rightarrow> program_state \<Rightarrow> error + bool" where
  "movement_vector_at key s =
     (case movement_vector_ptr s of
        None \<Rightarrow> Inl NullPointerDereference
      | Some v \<Rightarrow> if 0 \<le> key \<and> nat key < length v then Inr (v ! nat key)
                  else Inl OutOfRange)"

text \<open>\<open>movement_vector_ptr->at(key) = b\<close>.\<close>

definition movement_vector_at_assign ::
  "int \<Rightarrow> bool \<Rightarrow> program_state \<Rightarrow> error + program_state" where
  "movement_vector_at_assign key b s =
     (case movement_vector_ptr s of
        None \<Rightarrow> Inl NullPointerDereference
      | Some v \<Rightarrow> if 0 \<le> key \<and> nat key < length v
                  then Inr (s\<lparr>movement_vector_ptr := Some (v[nat key := b])\<rparr>)
                  else Inl OutOfRange)"

subsection \<open>User input callbacks (lines 73 to 148)\<close>

text \<open>The first ErrorCallback (lines 77 to 79): \<open>LOG(FATAL) << description\<close>.\<close>

definition ErrorCallback :: "int \<Rightarrow> string \<Rightarrow> program_state \<Rightarrow> error + program_state" where
  "ErrorCallback err description s = Inl (Fatal description)"

definition move_if_held ::
  "int \<Rightarrow> controller_call \<Rightarrow> program_state \<Rightarrow> error + program_state" where
  "move_if_held key c s =
     (case movement_vector_at key s of
        Inl e \<Rightarrow> Inl e
      | Inr held \<Rightarrow> if held then controller_call_through_ptr c s else Inr s)"

definition UpdateCameraPose :: "program_state \<Rightarrow> error + program_state" where
  "UpdateCameraPose s =
     (case move_if_held GLFW_KEY_W MoveFront s of
        Inl e \<Rightarrow> Inl e
      | Inr s1 \<Rightarrow>
     (case move_if_held GLFW_KEY_S MoveBack s1 of
        Inl e \<Rightarrow> Inl e
      | Inr s2 \<Rightarrow>
     (case move_if_held GLFW_KEY_A MoveLeft s2 of
        Inl e \<Rightarrow> Inl e
      | Inr s3 \<Rightarrow> move_if_held GLFW_KEY_D MoveRight s3)))"

text \<open>The first KeyCallback (lines 99 to 115).\<close>

definition KeyCallback ::
  "int \<Rightarrow> int \<Rightarrow> int \<Rightarrow> int \<Rightarrow> program_state \<Rightarrow> error + program_state" where
  "KeyCallback key scancode action mods s =
     (let s1 = (if key = GLFW_KEY_ESCAPE \<and> action = GLFW_PRESS
                then s\<lparr>window_should_close := True\<rparr> else s)
      in if 0 \<le> key \<and> key < 1024 then
           if action = GLFW_PRESS then movement_vector_at_assign key True s1
           else if action = GLFW_RELEASE then movement_vector_at_assign key False s1
           else Inr s1
         else Inr s1)"

text \<open>Assigning a double to an int truncates towards zero, and is undefined when the
  truncated value is not an int.\<close>

definition double_to_int :: "real \<Rightarrow> error + int" where
  "double_to_int x =
     (let t = (if 0 \<le> x then \<lfloor>x\<rfloor> else \<lceil>x\<rceil>)
      in if - (2 ^ 31) \<le> t \<and> t < 2 ^ 31 then Inr t else Inl ConversionOverflow)"

definition store_last_position :: "real \<Rightarrow> real \<Rightarrow> program_state \<Rightarrow> error + program_state" where
  "store_last_position x_position y_position s =
     (case double_to_int x_position of
        Inl e \<Rightarrow> Inl e
      | Inr lx \<Rightarrow>
     (case double_to_int y_position of
        Inl e \<Rightarrow> Inl e
      | Inr ly \<Rightarrow> Inr (s\<lparr>last_x_position := lx, last_y_position := ly\<rparr>)))"

definition MouseCallback :: "real \<Rightarrow> real \<Rightarrow> program_state \<Rightarrow> error + program_state" where
  "MouseCallback x_position y_position s =
     (case (if first_call s
            then (case store_last_position x_position y_position s of
                    Inl e \<Rightarrow> Inl e
                  | Inr s0 \<Rightarrow> Inr (s0\<lparr>first_call := False\<rparr>))
            else Inr s) of
        Inl e \<Rightarrow> Inl e
      | Inr s1 \<Rightarrow>
     (case camera_controller_ptr s1 of
        None \<Rightarrow> Inl NullPointerDereference
      | Some cc1 \<Rightarrow>
     (case controller_call_through_ptr
             (AddYawOffset (rotation_sensitivity cc1 *
                            (x_position - of_int (last_x_position s1)))) s1 of
        Inl e \<Rightarrow> Inl e
      | Inr s2 \<Rightarrow>
     (case camera_controller_ptr s2 of
        None \<Rightarrow> Inl NullPointerDereference
      | Some cc2 \<Rightarrow>
     (case controller_call_through_ptr
             (AddPitchOffset (rotation_sensitivity cc2 *
                              (of_int (last_y_position s2) - y_position))) s2 of
        Inl e \<Rightarrow> Inl e
      | Inr s3 \<Rightarrow> store_last_position x_position y_position s3)))))"

definition ScrollCallback :: "real \<Rightarrow> real \<Rightarrow> program_state \<Rightarrow> error + program_state" where
  "ScrollCallback x_offset y_offset s = controller_call_through_ptr (AdjustZoom y_offset) s"

subsection \<open>Device and library calls\<close>

type_synonym GLuint = nat

text \<open>A fixed 4 by 4 matrix, as its four rows.\<close>

type_synonym Matrix4f = "real list list"

text \<open>A dynamic matrix, as the list of its columns. \<open>Eigen::MatrixXf(rows, cols)\<close>
  allocates without initialising: a coefficient that has not been assigned yet is
  \<open>None\<close>.\<close>

type_synonym MatrixXf = "real option list list"

definition Matrix4f_Identity :: Matrix4f where
  "Matrix4f_Identity = [[1, 0, 0, 0], [0, 1, 0, 0], [0, 0, 1, 0], [0, 0, 0, 1]]"

text \<open>What draw\_scene.cc hands to the constructor of wvu::Model, whose header model.h is
  not among the sources; the four arguments are named as the spec names them.\<close>

record Model =
  scale :: "real list"
  translation :: "real list"
  vertices :: MatrixXf
  indices :: "GLuint list"

datatype GLenum =
    GL_DEPTH_TEST | GL_COLOR_BUFFER_BIT | GL_DEPTH_BUFFER_BIT
  | GL_FRONT_AND_BACK | GL_LINE
  | GL_TEXTURE_2D | GL_TEXTURE_WRAP_S | GL_TEXTURE_WRAP_T | GL_REPEAT
  | GL_TEXTURE_MIN_FILTER | GL_TEXTURE_MAG_FILTER | GL_LINEAR
  | GL_RGB | GL_UNSIGNED_BYTE

datatype window_hint =
    GLFW_CONTEXT_VERSION_MAJOR | GLFW_CONTEXT_VERSION_MINOR
  | GLFW_OPENGL_PROFILE | GLFW_OPENGL_FORWARD_COMPAT | GLFW_RESIZABLE

definition GL_FALSE :: int where "GL_FALSE = 0"
definition GL_TRUE :: int where "GL_TRUE = 1"
definition GLFW_OPENGL_CORE_PROFILE :: int where "GLFW_OPENGL_CORE_PROFILE = 204801"

text \<open>One constructor for each call that leaves draw\_scene.cc.\<close>

datatype event =
    ParseCommandLineFlags
  | InitGoogleLogging
  | glfwInit
  | glfwSetErrorCallback
  | glfwWindowHint window_hint int
  | glfwCreateWindow int int string
  | glfwTerminate
  | glfwMakeContextCurrent
  | glfwSwapInterval int
  | glfwSetKeyCallback
  | glewInit
  | cerr string
  | cout string
  | glfwGetFramebufferSize
  | glViewport int int int int
  | LoadVertexShaderFromString
  | LoadFragmentShaderFromString
  | ShaderProgram_Create
  | SetVerticesIntoGpu Model
  | CImg_load string
  | CImg_permute_axes string
  | glGenTextures
  | glBindTexture GLenum GLuint
  | glTexParameteri GLenum GLenum GLenum
  | glTexImage2D GLenum int GLenum int int int GLenum GLenum
  | glGenerateMipmap GLenum
  | glEnable GLenum
  | glClearColor real real real real
  | glClear "GLenum list"
  | Use GLuint
  | glPolygonMode GLenum GLenum
  | Draw Model Matrix4f Matrix4f GLuint
  | glBindVertexArray GLuint
  | glfwWindowShouldClose
  | glfwSwapBuffers
  | glfwPollEvents
  | delete_Model Model
  | glfwDestroyWindow

definition newline :: string where
  "newline = [CHR 0x0A]"

subsection \<open>The second set of callbacks (lines 192 to 205)\<close>

text \<open>draw\_scene.cc defines ErrorCallback and KeyCallback a second time in the same
  namespace, with other bodies. The second ErrorCallback writes to std::cerr and
  returns; the second KeyCallback handles the escape key only.\<close>

definition ErrorCallback_second :: "int \<Rightarrow> string \<Rightarrow> event list" where
  "ErrorCallback_second err description = [cerr (''ERROR: '' @ description @ newline)]"

definition KeyCallback_second ::
  "int \<Rightarrow> int \<Rightarrow> int \<Rightarrow> int \<Rightarrow> program_state \<Rightarrow> program_state" where
  "KeyCallback_second key scancode action mods s =
     (if key = GLFW_KEY_ESCAPE \<and> action = GLFW_PRESS
      then s\<lparr>window_should_close := True\<rparr> else s)"

subsection \<open>The environment of a run\<close>

text \<open>
  Modelled from the spec: wvu::ShaderProgram (shader\_program.h is not among the
  sources). \<open>Create\<close> compiles and links; on a compile or link failure it returns
  failure and fills the error log, and the program identifier stays as it was; on
  success it assigns a non-zero program identifier.
\<close>

datatype create_outcome =
    CompileOrLinkFailure string  \<comment> \<open>the diagnostic reported by the device\<close>
  | Linked nat                   \<comment> \<open>\<open>Linked n\<close>: the program identifier is \<open>Suc n\<close>\<close>

record ShaderProgram =
  shader_program_id :: GLuint

definition ShaderProgram_new :: ShaderProgram where
  "ShaderProgram_new = \<lparr>shader_program_id = 0\<rparr>"

definition Create :: "create_outcome \<Rightarrow> ShaderProgram \<Rightarrow> bool \<times> string \<times> ShaderProgram" where
  "Create outcome sp =
     (case outcome of
        CompileOrLinkFailure diagnostic \<Rightarrow> (False, diagnostic, sp)
      | Linked n \<Rightarrow> (True, [], sp\<lparr>shader_program_id := Suc n\<rparr>))"

text \<open>
  What the libraries answer during one run, and the functions of transformations.h
  (not among the sources), which are taken as parameters. \<open>FLAGS_brick_filepath\<close> and
  \<open>FLAGS_stone_filepath\<close> are read by main but defined nowhere in draw\_scene.cc; their
  values are parameters as well. \<open>command_line\<close> holds the flag assignments given on
  the command line. \<open>glfwPollEvents_runs w i\<close> is what the callbacks that the
  windowing library runs during the poll of iteration \<open>i\<close> do to the state.
\<close>

record world =
  command_line :: "(string \<times> string) list"
  FLAGS_brick_filepath :: string
  FLAGS_stone_filepath :: string
  glfwInit_returns :: bool
  glfwCreateWindow_returns :: bool
  glewInit_returns_GLEW_OK :: bool
  glfwGetFramebufferSize_returns :: "int \<times> int"
  Create_outcome :: create_outcome
  image_size :: "string \<Rightarrow> int \<times> int"
  glGenTextures_returns :: "nat \<Rightarrow> GLuint"
  glfwPollEvents_runs :: "nat \<Rightarrow> program_state \<Rightarrow> error + program_state"
  ConvertDegreesToRadians :: "real \<Rightarrow> real"
  ComputePerspectiveProjectionMatrix :: "real \<Rightarrow> real \<Rightarrow> real \<Rightarrow> real \<Rightarrow> Matrix4f"

subsection \<open>Flags (lines 55 to 58)\<close>

text \<open>\<open>DEFINE_string(name, default, description)\<close>: the value given on the command
  line, or the default.\<close>

definition DEFINE_string :: "string \<Rightarrow> string \<Rightarrow> world \<Rightarrow> string" where
  "DEFINE_string name default_value w =
     (case map_of (command_line w) name of None \<Rightarrow> default_value | Some v \<Rightarrow> v)"

definition FLAGS_texture1_filepath :: "world \<Rightarrow> string" where
  "FLAGS_texture1_filepath = DEFINE_string ''texture1_filepath'' ''texture1.bmp''"

definition FLAGS_texture2_filepath :: "world \<Rightarrow> string" where
  "FLAGS_texture2_filepath = DEFINE_string ''texture2_filepath'' ''texture2.bmp''"

subsection \<open>Helper functions (lines 207 to 308)\<close>

definition kWindowWidth :: int where "kWindowWidth = 640"
definition kWindowHeight :: int where "kWindowHeight = 480"

text \<open>\<open>LoadTexture\<close>; \<open>k\<close> counts the textures generated before this one.\<close>

definition LoadTexture :: "world \<Rightarrow> nat \<Rightarrow> string \<Rightarrow> GLuint \<times> event list" where
  "LoadTexture w k texture_filepath =
     (let (width, height) = image_size w texture_filepath;
          texture_id = glGenTextures_returns w k
      in (texture_id,
          [CImg_load texture_filepath,
           CImg_permute_axes ''cxyz'',
           glGenTextures,
           glBindTexture GL_TEXTURE_2D texture_id,
           glTexParameteri GL_TEXTURE_2D GL_TEXTURE_WRAP_S GL_REPEAT,
           glTexParameteri GL_TEXTURE_2D GL_TEXTURE_WRAP_T GL_REPEAT,
           glTexParameteri GL_TEXTURE_2D GL_TEXTURE_MIN_FILTER GL_LINEAR,
           glTexParameteri GL_TEXTURE_2D GL_TEXTURE_MAG_FILTER GL_LINEAR,
           glTexImage2D GL_TEXTURE_2D 0 GL_RGB width height 0 GL_RGB GL_UNSIGNED_BYTE,
           glGenerateMipmap GL_TEXTURE_2D,
           glBindTexture GL_TEXTURE_2D 0]))"

definition SetWindowHints :: "event list" where
  "SetWindowHints =
     [glfwWindowHint GLFW_CONTEXT_VERSION_MAJOR 3,
      glfwWindowHint GLFW_CONTEXT_VERSION_MINOR 2,
      glfwWindowHint GLFW_OPENGL_PROFILE GLFW_OPENGL_CORE_PROFILE,
      glfwWindowHint GLFW_OPENGL_FORWARD_COMPAT GL_TRUE,
      glfwWindowHint GLFW_RESIZABLE GL_FALSE]"

definition ConfigureViewPort :: "world \<Rightarrow> event list" where
  "ConfigureViewPort w =
     (let (width, height) = glfwGetFramebufferSize_returns w
      in [glfwGetFramebufferSize, glViewport 0 0 width height])"

definition ClearTheFrameBuffer :: "event list" where
  "ClearTheFrameBuffer =
     [glEnable GL_DEPTH_TEST,
      glClearColor 0 0 0 1,
      glClear [GL_COLOR_BUFFER_BIT, GL_DEPTH_BUFFER_BIT]]"

text \<open>\<open>CreateShaderProgram\<close>; the pointer argument is \<open>None\<close> for nullptr. The result
  depends on the program identifier alone, not on what \<open>Create\<close> returned.\<close>

definition CreateShaderProgram ::
  "world \<Rightarrow> ShaderProgram option \<Rightarrow> bool \<times> ShaderProgram option \<times> event list" where
  "CreateShaderProgram w shader_program =
     (case shader_program of
        None \<Rightarrow> (False, None, [])
      | Some sp \<Rightarrow>
          (let (created, error_info_log, sp1) = Create (Create_outcome w) sp;
               t = [LoadVertexShaderFromString, LoadFragmentShaderFromString,
                    ShaderProgram_Create] @
                   (if \<not> created then [cout (''ERROR: '' @ error_info_log @ newline)]
                    else [])
           in if shader_program_id sp1 = 0
              then (False, Some sp1,
                    t @ [cerr (''ERROR: Could not create a shader program.'' @ newline)])
              else (True, Some sp1, t)))"

text \<open>The loop of \<open>RenderScene\<close>: the model at index \<open>i\<close> is drawn with
  \<open>texture_ids[i]\<close>. \<open>texture_ids\<close> is a plain array, so reading past its end is
  not checked by the code.\<close>

fun draw_models ::
  "GLuint \<Rightarrow> Matrix4f \<Rightarrow> Matrix4f \<Rightarrow> GLuint list \<Rightarrow> nat \<Rightarrow> Model list
     \<Rightarrow> event list \<times> error option" where
  "draw_models sp projection view texture_ids i [] = ([], None)"
| "draw_models sp projection view texture_ids i (m # ms) =
     (if i < length texture_ids
      then (let (es, r) = draw_models sp projection view texture_ids (Suc i) ms
            in (Draw m projection view (texture_ids ! i) # es, r))
      else ([], Some ArrayOutOfBounds))"

definition RenderScene ::
  "GLuint \<Rightarrow> Matrix4f \<Rightarrow> Matrix4f \<Rightarrow> Model list \<Rightarrow> GLuint list
     \<Rightarrow> event list \<times> error option" where
  "RenderScene sp projection view models_to_draw texture_ids =
     (let (es, r) = draw_models sp projection view texture_ids 0 models_to_draw;
          t = ClearTheFrameBuffer @ [Use sp, glPolygonMode GL_FRONT_AND_BACK GL_LINE] @ es
      in case r of
           Some e \<Rightarrow> (t, Some e)
         | None \<Rightarrow> (t @ [glBindVertexArray 0], None))"

subsection \<open>ConstructModels and DeleteModels (lines 313 to 407)\<close>

definition MatrixXf :: "nat \<Rightarrow> nat \<Rightarrow> MatrixXf" where
  "MatrixXf rows cols = replicate cols (replicate rows None)"

fun write_column :: "nat \<Rightarrow> real list \<Rightarrow> real option list \<Rightarrow> real option list" where
  "write_column r [] col = col"
| "write_column r (x # xs) col = write_column (Suc r) xs (col[r := Some x])"

text \<open>\<open>m.block(startRow, startCol, blockRows, blockCols) = v\<close> for a column vector
  \<open>v\<close>. Eigen asserts that the block lies inside the matrix and has the size of
  \<open>v\<close>.\<close>

definition block_assign ::
  "nat \<times> nat \<times> nat \<times> nat \<times> real list \<Rightarrow> MatrixXf \<Rightarrow> error + MatrixXf" where
  "block_assign b m =
     (case b of (startRow, startCol, blockRows, blockCols, v) \<Rightarrow>
        if blockCols = 1 \<and> length v = blockRows \<and> startCol < length m \<and>
           startRow + blockRows \<le> length (m ! startCol)
        then Inr (m[startCol := write_column startRow v (m ! startCol)])
        else Inl EigenAssertion)"

fun block_assignments ::
  "(nat \<times> nat \<times> nat \<times> nat \<times> real list) list \<Rightarrow> MatrixXf \<Rightarrow> error + MatrixXf" where
  "block_assignments [] m = Inr m"
| "block_assignments (b # bs) m =
     (case block_assign b m of Inl e \<Rightarrow> Inl e | Inr m1 \<Rightarrow> block_assignments bs m1)"

text \<open>The pyramid: \<open>indices\<close> and \<open>vertices\<close> of the source. Each line below is one
  vertex of the source: position, colour, texel.\<close>

definition indices_pyramid :: "GLuint list" where
  "indices_pyramid =
     [0, 3, 2,  0, 2, 1,  0, 4, 1,  0, 3, 4,  3, 2, 4,  2, 1, 4]"

definition vertices_pyramid :: "error + MatrixXf" where
  "vertices_pyramid = block_assignments
     [
      (0, 0, 3, 1, [0, 0, 0]), (3, 0, 3, 1, [1, 0, 0]), (6, 0, 2, 1, [0, 0]),
      (0, 1, 3, 1, [2, 0, 0]), (3, 1, 3, 1, [0, 1, 0]), (6, 1, 2, 1, [0, 1]),
      (0, 2, 3, 1, [2, 0, 2]), (3, 2, 3, 1, [0, 0, 1]), (6, 2, 2, 1, [1, 0]),
      (0, 3, 3, 1, [0, 0, 2]), (3, 3, 3, 1, [1, 0, 0]), (6, 3, 2, 1, [1, 1]),
      (0, 4, 3, 1, [1, 2, 1]), (3, 4, 3, 1, [0, 1, 0]), (6, 4, 2, 1, [0, 0])
     ] (MatrixXf 8 5)"

text \<open>The cube: \<open>indices2\<close> and \<open>vertices2\<close> of the source. The assignments are
  listed in the order of the source, in the two groups its comments make: those labelled
  Cube Vertex 0 to 3 and those labelled Cube Vertex 4 to 7. The column arguments are
  those of the source.\<close>

definition indices2 :: "GLuint list" where
  "indices2 =
     [0, 3, 2,  0, 2, 1,  0, 4, 1,  1, 5, 2,  2, 6, 3,  3, 7, 0,
      4, 5, 1,  5, 6, 2,  6, 7, 3,  7, 4, 0,  4, 7, 5,  5, 7, 6]"

definition cube_vertex_0_to_3 :: "(nat \<times> nat \<times> nat \<times> nat \<times> real list) list" where
  "cube_vertex_0_to_3 =
     [(0, 0, 3, 1, [0, 0, 0]), (3, 0, 3, 1, [1, 0, 0]), (6, 0, 2, 1, [0, 0]),
      (0, 1, 3, 1, [2, 0, 0]), (3, 1, 3, 1, [0, 1, 0]), (6, 1, 2, 1, [0, 1]),
      (0, 2, 3, 1, [2, 0, 2]), (3, 2, 3, 1, [0, 0, 1]), (6, 2, 2, 1, [1, 0]),
      (0, 3, 3, 1, [0, 0, 2]), (3, 3, 3, 1, [1, 0, 0]), (6, 3, 2, 1, [1, 1])]"

definition cube_vertex_4_to_7 :: "(nat \<times> nat \<times> nat \<times> nat \<times> real list) list" where
  "cube_vertex_4_to_7 =
     [(0, 0, 3, 1, [0, 2, 0]), (3, 0, 3, 1, [1, 0, 0]), (6, 0, 2, 1, [0, 0]),
      (0, 1, 3, 1, [2, 2, 0]), (3, 1, 3, 1, [0, 1, 0]), (6, 1, 2, 1, [0, 1]),
      (0, 2, 3, 1, [2, 2, 2]), (3, 2, 3, 1, [0, 0, 1]), (6, 2, 2, 1, [1, 0]),
      (0, 3, 3, 1, [0, 2, 2]), (3, 3, 3, 1, [1, 0, 0]), (6, 3, 2, 1, [1, 1])]"

definition vertices2 :: "error + MatrixXf" where
  "vertices2 = block_assignments (cube_vertex_0_to_3 @ cube_vertex_4_to_7) (MatrixXf 8 8)"

definition ConstructModels :: "Model list \<Rightarrow> event list \<times> (error + Model list)" where
  "ConstructModels models_to_draw =
     (case vertices_pyramid of
        Inl e \<Rightarrow> ([], Inl e)
      | Inr v1 \<Rightarrow>
          (let pyramid = \<lparr>scale = [1, 1, 1], translation = [- 3, - 1, - 15],
                          vertices = v1, indices = indices_pyramid\<rparr>
           in case vertices2 of
                Inl e \<Rightarrow> ([SetVerticesIntoGpu pyramid], Inl e)
              | Inr v2 \<Rightarrow>
                  (let cube = \<lparr>scale = [1, 1, 1], translation = [1, - 1, - 15],
                               vertices = v2, indices = indices2\<rparr>
                   in ([SetVerticesIntoGpu pyramid, SetVerticesIntoGpu cube],
                       Inr (models_to_draw @ [pyramid, cube])))))"

definition DeleteModels :: "Model list \<Rightarrow> event list" where
  "DeleteModels models_to_draw = map delete_Model models_to_draw"

subsection \<open>main (lines 411 to 498)\<close>

text \<open>The locals of main that feed the projection matrix. \<open>kWindowWidth / kWindowHeight\<close>
  divides two ints; the quotient is converted to float afterwards.\<close>

definition field_of_view :: "world \<Rightarrow> real" where
  "field_of_view w = ConvertDegreesToRadians w 45"

definition aspect_ratio :: real where
  "aspect_ratio = of_int (kWindowWidth sdiv kWindowHeight)"

definition near_plane :: real where
  "near_plane = 0.1"

definition far_plane :: real where
  "far_plane = 20"

definition projection :: "world \<Rightarrow> Matrix4f" where
  "projection w =
     ComputePerspectiveProjectionMatrix w (field_of_view w) aspect_ratio near_plane far_plane"

definition view :: Matrix4f where
  "view = Matrix4f_Identity"

text \<open>
  The body of the render loop: \<open>RenderScene\<close>, the buffer swap and the poll. Nothing
  in it reads or writes the state of the callbacks, except what the callbacks themselves
  do while glfwPollEvents runs them.
\<close>

definition loop_body ::
  "world \<Rightarrow> nat \<Rightarrow> program_state \<Rightarrow> GLuint \<Rightarrow> Matrix4f \<Rightarrow> Matrix4f \<Rightarrow> Model list
     \<Rightarrow> GLuint list \<Rightarrow> event list \<times> (error + program_state)" where
  "loop_body w i s sp proj vw models_to_draw texture_ids =
     (case RenderScene sp proj vw models_to_draw texture_ids of
        (es, Some e) \<Rightarrow> (es, Inl e)
      | (es, None) \<Rightarrow> (es @ [glfwSwapBuffers, glfwPollEvents], glfwPollEvents_runs w i s))"

text \<open>
  The render loop. Its condition reads the close flag of the window; \<open>i\<close> counts the
  iterations so far. The loop runs for as long as nobody asks the window to close, so
  the model takes fuel and returns \<open>None\<close> when it runs out.
\<close>

fun render_loop ::
  "nat \<Rightarrow> world \<Rightarrow> nat \<Rightarrow> program_state \<Rightarrow> GLuint \<Rightarrow> Matrix4f \<Rightarrow> Matrix4f \<Rightarrow> Model list
     \<Rightarrow> GLuint list \<Rightarrow> (event list \<times> (error + program_state)) option" where
  "render_loop 0 w i s sp proj vw models_to_draw texture_ids = None"
| "render_loop (Suc fuel) w i s sp proj vw models_to_draw texture_ids =
     (if window_should_close s then Some ([glfwWindowShouldClose], Inr s)
      else
        (case loop_body w i s sp proj vw models_to_draw texture_ids of
           (es, Inl e) \<Rightarrow> Some (glfwWindowShouldClose # es, Inl e)
         | (es, Inr s1) \<Rightarrow>
             (case render_loop fuel w (Suc i) s1 sp proj vw models_to_draw texture_ids of
                None \<Rightarrow> None
              | Some (rest, r) \<Rightarrow> Some (glfwWindowShouldClose # es @ rest, r))))"

text \<open>main returns the calls it made and either its return value or the error that
  ended it.\<close>

definition main :: "nat \<Rightarrow> world \<Rightarrow> (event list \<times> (error + int)) option" where
  "main fuel w =
     (let t0 = [ParseCommandLineFlags, InitGoogleLogging, glfwInit]
      in if \<not> glfwInit_returns w then Some (t0, Inr (- 1))
      else
     (let t1 = t0 @ [glfwSetErrorCallback] @ SetWindowHints @
               [glfwCreateWindow kWindowWidth kWindowHeight ''Assignment 4'']
      in if \<not> glfwCreateWindow_returns w then Some (t1 @ [glfwTerminate], Inr (- 1))
      else
     (let t2 = t1 @ [glfwMakeContextCurrent, glfwSwapInterval 1, glfwSetKeyCallback, glewInit]
      in if \<not> glewInit_returns_GLEW_OK w
         then Some (t2 @ [cerr (''Glew did not initialize properly!'' @ newline),
                          glfwTerminate], Inr (- 1))
      else
     (let t3 = t2 @ ConfigureViewPort w;
          (created, shader_program, es4) = CreateShaderProgram w (Some ShaderProgram_new);
          t4 = t3 @ es4
      in if \<not> created then Some (t4, Inr (- 1))
      else
     (case shader_program of
        None \<Rightarrow> Some (t4, Inl NullPointerDereference)
      | Some sp \<Rightarrow>
     (case ConstructModels [] of
        (es5, Inl e) \<Rightarrow> Some (t4 @ es5, Inl e)
      | (es5, Inr models_to_draw) \<Rightarrow>
     (let (texture_id0, es6) = LoadTexture w 0 (FLAGS_brick_filepath w);
          (texture_id1, es7) = LoadTexture w 1 (FLAGS_stone_filepath w);
          texture_ids = [texture_id0, texture_id1];
          t7 = t4 @ es5 @ es6 @ es7
      in case render_loop fuel w 0 initial_state (shader_program_id sp) (projection w) view
                models_to_draw texture_ids of
           None \<Rightarrow> None
         | Some (es8, Inl e) \<Rightarrow> Some (t7 @ es8, Inl e)
         | Some (es8, Inr s) \<Rightarrow>
             Some (t7 @ es8 @ DeleteModels models_to_draw @
                   [glfwDestroyWindow, glfwTerminate], Inr 0))))))))"

subsection \<open>Notions used to state the properties\<close>

text \<open>The state in which the loop condition of iteration \<open>n\<close> finds the callbacks, as
  long as no callback has failed.\<close>

fun state_at_iteration :: "world \<Rightarrow> nat \<Rightarrow> error + program_state" where
  "state_at_iteration w 0 = Inr initial_state"
| "state_at_iteration w (Suc n) =
     (case state_at_iteration w n of Inl e \<Rightarrow> Inl e | Inr s \<Rightarrow> glfwPollEvents_runs w n s)"

definition keeps_open :: "world \<Rightarrow> nat \<Rightarrow> bool" where
  "keeps_open w i =
     (case state_at_iteration w i of Inl e \<Rightarrow> False | Inr s \<Rightarrow> \<not> window_should_close s)"

definition asks_to_close :: "world \<Rightarrow> nat \<Rightarrow> bool" where
  "asks_to_close w i =
     (case state_at_iteration w i of Inl e \<Rightarrow> False | Inr s \<Rightarrow> window_should_close s)"

text \<open>A draw call is passed the view matrix \<open>vw\<close>; any other call passes.\<close>

definition draws_with_view :: "Matrix4f \<Rightarrow> event \<Rightarrow> bool" where
  "draws_with_view vw e = (case e of Draw m p v t \<Rightarrow> v = vw | _ \<Rightarrow> True)"

text \<open>The image files opened, in order.\<close>

fun loaded_files :: "event list \<Rightarrow> string list" where
  "loaded_files [] = []"
| "loaded_files (e # es) =
     (case e of CImg_load f \<Rightarrow> f # loaded_files es | _ \<Rightarrow> loaded_files es)"

text \<open>
  The iteration of the render loop in the words of the spec: update the camera pose
  from the held keys, clear the buffers, activate the shader program, set the polygon
  mode, draw every model with its own texture, present the frame, poll input events.
\<close>

definition spec_loop_body ::
  "world \<Rightarrow> nat \<Rightarrow> program_state \<Rightarrow> GLuint \<Rightarrow> Matrix4f \<Rightarrow> Matrix4f \<Rightarrow> Model list
     \<Rightarrow> GLuint list \<Rightarrow> event list \<times> (error + program_state)" where
  "spec_loop_body w i s sp proj vw models_to_draw texture_ids =
     (case UpdateCameraPose s of
        Inl e \<Rightarrow> ([], Inl e)
      | Inr s0 \<Rightarrow>
          (ClearTheFrameBuffer @ [Use sp, glPolygonMode GL_FRONT_AND_BACK GL_LINE] @
           map (\<lambda>(m, t). Draw m proj vw t) (zip models_to_draw texture_ids) @
           [glfwSwapBuffers, glfwPollEvents],
           glfwPollEvents_runs w i s0))"

subsection \<open>Concrete inputs\<close>

text \<open>A state with a camera controller and a held-key vector of 1024 entries, none
  held; and the same with W and A held.\<close>

definition state_keys :: program_state where
  "state_keys = initial_state
     \<lparr>camera_controller_ptr := Some \<lparr>rotation_sensitivity = 1 / 10, calls = []\<rparr>,
      movement_vector_ptr := Some (replicate 1024 False)\<rparr>"

definition state_W_A :: program_state where
  "state_W_A = state_keys
     \<lparr>movement_vector_ptr := Some ((replicate 1024 False)[87 := True, 65 := True])\<rparr>"

text \<open>
  A run in which every initialisation step succeeds and the window is asked to close
  during the first poll. Its projection function returns its four arguments as one row,
  so that they can be read off the draw calls.
\<close>

definition world_one_frame :: world where
  "world_one_frame =
     \<lparr>command_line = [],
      FLAGS_brick_filepath = ''brick.bmp'',
      FLAGS_stone_filepath = ''stone.bmp'',
      glfwInit_returns = True,
      glfwCreateWindow_returns = True,
      glewInit_returns_GLEW_OK = True,
      glfwGetFramebufferSize_returns = (640, 480),
      Create_outcome = Linked 0,
      image_size = (\<lambda>f. (64, 64)),
      glGenTextures_returns = Suc,
      glfwPollEvents_runs = (\<lambda>i s. Inr (s\<lparr>window_should_close := True\<rparr>)),
      ConvertDegreesToRadians = (\<lambda>d. d * (355 / 113) / 180),
      ComputePerspectiveProjectionMatrix = (\<lambda>fov aspect near far. [[fov, aspect, near, far]])\<rparr>"

text \<open>The same run started with both texture flags given on the command line.\<close>

definition world_texture_flags :: world where
  "world_texture_flags = world_one_frame
     \<lparr>command_line := [(''texture1_filepath'', ''a.bmp''), (''texture2_filepath'', ''b.bmp'')]\<rparr>"

text \<open>Runs in which one initialisation step fails.\<close>

definition world_no_glfw :: world where
  "world_no_glfw = world_one_frame\<lparr>glfwInit_returns := False\<rparr>"

definition world_no_window :: world where
  "world_no_window = world_one_frame\<lparr>glfwCreateWindow_returns := False\<rparr>"

definition world_no_glew :: world where
  "world_no_glew = world_one_frame\<lparr>glewInit_returns_GLEW_OK := False\<rparr>"

definition world_no_shader :: world where
  "world_no_shader = world_one_frame\<lparr>Create_outcome := CompileOrLinkFailure ''0:1: syntax error''\<rparr>"

text \<open>A run in which the windowing library reports an error during the first poll, to
  the first ErrorCallback.\<close>

definition world_error :: world where
  "world_error = world_one_frame
     \<lparr>glfwPollEvents_runs := (\<lambda>i. ErrorCallback 65537 ''The GLFW library is not initialized'')\<rparr>"

section \<open>Properties of the callbacks\<close>

lemmas glfw_consts =
  GLFW_RELEASE_def GLFW_PRESS_def GLFW_REPEAT_def GLFW_KEY_A_def GLFW_KEY_D_def
  GLFW_KEY_S_def GLFW_KEY_W_def GLFW_KEY_ESCAPE_def

lemma KeyCallback_length:
  "KeyCallback key scancode action mods s = Inr s' \<Longrightarrow>
   map_option length (movement_vector_ptr s') = map_option length (movement_vector_ptr s)"
  by (auto simp: KeyCallback_def movement_vector_at_assign_def Let_def
           split: if_splits option.splits)

text \<open>
  C6. For every key event delivered to the key callback of lines 99 to 115: with a
  held-key vector of at least 1024 entries the callback returns normally, and the
  vector afterwards is the old one with entry \<open>key\<close> set to true on a press, to false
  on a release, when \<open>0 \<le> key < 1024\<close>, and the old one unchanged otherwise. An event
  with a key outside that range returns normally and leaves the vector as it was,
  whatever the vector is. No event changes the length of the vector.
\<close>

theorem KeyCallback_held_key_vector:
  "(movement_vector_ptr s = Some v \<and> 1024 \<le> length v \<longrightarrow>
      (\<exists>s'. KeyCallback key scancode action mods s = Inr s' \<and>
            movement_vector_ptr s' =
              Some (if 0 \<le> key \<and> key < 1024 \<and> action = GLFW_PRESS then v[nat key := True]
                    else if 0 \<le> key \<and> key < 1024 \<and> action = GLFW_RELEASE
                         then v[nat key := False]
                    else v)))
   \<and> (\<not> (0 \<le> key \<and> key < 1024) \<longrightarrow>
        (\<exists>s'. KeyCallback key scancode action mods s = Inr s' \<and>
              movement_vector_ptr s' = movement_vector_ptr s))
   \<and> (\<forall>s'. KeyCallback key scancode action mods s = Inr s' \<longrightarrow>
        map_option length (movement_vector_ptr s') =
        map_option length (movement_vector_ptr s))"
proof (intro conjI impI allI)
  assume a: "movement_vector_ptr s = Some v \<and> 1024 \<le> length v"
  show "\<exists>s'. KeyCallback key scancode action mods s = Inr s' \<and>
            movement_vector_ptr s' =
              Some (if 0 \<le> key \<and> key < 1024 \<and> action = GLFW_PRESS then v[nat key := True]
                    else if 0 \<le> key \<and> key < 1024 \<and> action = GLFW_RELEASE
                         then v[nat key := False]
                    else v)"
    using a by (auto simp: KeyCallback_def movement_vector_at_assign_def Let_def glfw_consts)
next
  assume "\<not> (0 \<le> key \<and> key < 1024)"
  then show "\<exists>s'. KeyCallback key scancode action mods s = Inr s' \<and>
              movement_vector_ptr s' = movement_vector_ptr s"
    by (auto simp: KeyCallback_def Let_def)
next
  fix s' assume "KeyCallback key scancode action mods s = Inr s'"
  then show "map_option length (movement_vector_ptr s') =
        map_option length (movement_vector_ptr s)"
    by (rule KeyCallback_length)
qed

theorem KeyCallback_held_key_vector_witness:
  "movement_vector_ptr state_keys = Some (replicate 1024 False)
   \<and> 1024 \<le> length (replicate 1024 False :: bool list)
   \<and> (\<exists>s'. KeyCallback 87 0 GLFW_PRESS 0 state_keys = Inr s' \<and>
            movement_vector_ptr s' = Some ((replicate 1024 False)[87 := True]))
   \<and> (\<exists>s'. KeyCallback 1024 0 GLFW_PRESS 0 state_keys = Inr s' \<and>
            movement_vector_ptr s' = Some (replicate 1024 False))
   \<and> (\<exists>s'. KeyCallback (- 1) 0 GLFW_PRESS 0 state_keys = Inr s' \<and>
            movement_vector_ptr s' = Some (replicate 1024 False))"
  using KeyCallback_held_key_vector [of state_keys "replicate 1024 False" 87 0 GLFW_PRESS 0]
    KeyCallback_held_key_vector [of state_keys "replicate 1024 False" 1024 0 GLFW_PRESS 0]
    KeyCallback_held_key_vector [of state_keys "replicate 1024 False" "- 1" 0 GLFW_PRESS 0]
  by (simp add: state_keys_def initial_state_def)

text \<open>The second KeyCallback (lines 201 to 205) never touches the held-key vector.\<close>

lemma KeyCallback_second_keeps_vector:
  "movement_vector_ptr (KeyCallback_second key scancode action mods s) = movement_vector_ptr s"
  by (simp add: KeyCallback_second_def)

lemma double_to_int_close: "double_to_int x = Inr t \<Longrightarrow> \<bar>x - of_int t\<bar> < 1"
  by (auto simp: double_to_int_def Let_def split: if_splits) linarith+

text \<open>
  C7. With a camera controller in place and a cursor position that fits an int, the
  cursor-position callback seeds the stored last position from the current position
  when, and only when, it is the first call, so that the differences fed on the first
  call are below 1 in absolute value; on every call it feeds
  \<open>sensitivity * (current_x - last_x)\<close> into AddYawOffset and then
  \<open>sensitivity * (last_y - current_y)\<close> into AddPitchOffset; and it ends by storing
  the current position as the last one. The stored position is an int, the current
  position truncated.
\<close>

theorem MouseCallback_offsets:
  assumes "camera_controller_ptr s = Some cc"
    and "double_to_int x_position = Inr ix" and "double_to_int y_position = Inr iy"
  shows "MouseCallback x_position y_position s =
         Inr (s\<lparr>camera_controller_ptr := Some (cc\<lparr>calls := calls cc @
                 [AddYawOffset (rotation_sensitivity cc *
                    (x_position - of_int (if first_call s then ix else last_x_position s))),
                  AddPitchOffset (rotation_sensitivity cc *
                    (of_int (if first_call s then iy else last_y_position s) - y_position))]\<rparr>),
               last_x_position := ix, last_y_position := iy, first_call := False\<rparr>)
        \<and> (first_call s \<longrightarrow> \<bar>x_position - of_int ix\<bar> < 1 \<and> \<bar>of_int iy - y_position\<bar> < 1)"
  using assms double_to_int_close [OF assms(2)] double_to_int_close [OF assms(3)]
  by (auto simp: MouseCallback_def store_last_position_def controller_call_through_ptr_def
        invoke_def)

theorem MouseCallback_offsets_witness:
  "MouseCallback 100.5 200.25 state_keys =
     Inr (state_keys\<lparr>camera_controller_ptr :=
            Some \<lparr>rotation_sensitivity = 1 / 10,
                  calls = [AddYawOffset 0.05, AddPitchOffset (- 0.025)]\<rparr>,
          last_x_position := 100, last_y_position := 200, first_call := False\<rparr>)"
  using MouseCallback_offsets [of state_keys "\<lparr>rotation_sensitivity = 1 / 10, calls = []\<rparr>"
      "100.5" 100 "200.25" 200]
  by (simp add: state_keys_def initial_state_def double_to_int_def)

text \<open>A later call uses the stored position and does not seed.\<close>

lemma MouseCallback_second_call:
  "MouseCallback 103 198
     (state_keys\<lparr>last_x_position := 100, last_y_position := 200, first_call := False\<rparr>) =
   Inr (state_keys\<lparr>camera_controller_ptr :=
          Some \<lparr>rotation_sensitivity = 1 / 10,
                calls = [AddYawOffset 0.3, AddPitchOffset 0.2]\<rparr>,
        last_x_position := 103, last_y_position := 198, first_call := False\<rparr>)"
  by (simp add: MouseCallback_def store_last_position_def controller_call_through_ptr_def
        invoke_def state_keys_def initial_state_def double_to_int_def)

text \<open>
  C8. Given a held-key vector of 1024 entries in which the entries of W and A are
  true and every other entry is false, one call of UpdateCameraPose makes the camera
  controller receive MoveFront once and then MoveLeft once, and nothing else: the two
  moves are both applied, with no step between them that would rescale the result.
\<close>

theorem UpdateCameraPose_W_and_A:
  assumes "movement_vector_ptr s = Some v" and "camera_controller_ptr s = Some cc"
    and "length v = 1024"
    and "\<forall>k < 1024. v ! k = (k = nat GLFW_KEY_W \<or> k = nat GLFW_KEY_A)"
  shows "UpdateCameraPose s =
         Inr (s\<lparr>camera_controller_ptr := Some (cc\<lparr>calls := calls cc @ [MoveFront, MoveLeft]\<rparr>)\<rparr>)"
  using assms
  by (simp add: UpdateCameraPose_def move_if_held_def movement_vector_at_def
        controller_call_through_ptr_def invoke_def glfw_consts)

theorem UpdateCameraPose_W_and_A_witness:
  "UpdateCameraPose state_W_A =
     Inr (state_W_A\<lparr>camera_controller_ptr :=
            Some \<lparr>rotation_sensitivity = 1 / 10, calls = [MoveFront, MoveLeft]\<rparr>\<rparr>)"
  using UpdateCameraPose_W_and_A [of state_W_A "(replicate 1024 False)[87 := True, 65 := True]"
      "\<lparr>rotation_sensitivity = 1 / 10, calls = []\<rparr>"]
  by (simp add: state_W_A_def state_keys_def initial_state_def glfw_consts nth_list_update)

text \<open>The second ErrorCallback (lines 195 to 197) prints the description and returns.\<close>

lemma ErrorCallback_second_prints:
  "ErrorCallback_second err description = [cerr (''ERROR: '' @ description @ newline)]"
  by (simp add: ErrorCallback_second_def)

section \<open>Properties of the models\<close>

lemma vertices2_value:
  "vertices2 =
     Inr [[Some 0, Some 2, Some 0, Some 1, Some 0, Some 0, Some 0, Some 0],
          [Some 2, Some 2, Some 0, Some 0, Some 1, Some 0, Some 0, Some 1],
          [Some 2, Some 2, Some 2, Some 0, Some 0, Some 1, Some 1, Some 0],
          [Some 0, Some 2, Some 2, Some 1, Some 0, Some 0, Some 1, Some 1],
          replicate 8 None, replicate 8 None, replicate 8 None, replicate 8 None]"
  by (simp add: vertices2_def cube_vertex_0_to_3_def cube_vertex_4_to_7_def MatrixXf_def
        block_assign_def numeral_eq_Suc)

lemma vertices_pyramid_value:
  "vertices_pyramid =
     Inr [[Some 0, Some 0, Some 0, Some 1, Some 0, Some 0, Some 0, Some 0],
          [Some 2, Some 0, Some 0, Some 0, Some 1, Some 0, Some 0, Some 1],
          [Some 2, Some 0, Some 2, Some 0, Some 0, Some 1, Some 1, Some 0],
          [Some 0, Some 0, Some 2, Some 1, Some 0, Some 0, Some 1, Some 1],
          [Some 1, Some 2, Some 1, Some 0, Some 1, Some 0, Some 0, Some 0]]"
  by (simp add: vertices_pyramid_def MatrixXf_def block_assign_def numeral_eq_Suc)

lemma ConstructModels_value:
  "ConstructModels [] =
     ([SetVerticesIntoGpu \<lparr>scale = [1, 1, 1], translation = [- 3, - 1, - 15],
                            vertices = projr vertices_pyramid, indices = indices_pyramid\<rparr>,
       SetVerticesIntoGpu \<lparr>scale = [1, 1, 1], translation = [1, - 1, - 15],
                            vertices = projr vertices2, indices = indices2\<rparr>],
      Inr [\<lparr>scale = [1, 1, 1], translation = [- 3, - 1, - 15],
             vertices = projr vertices_pyramid, indices = indices_pyramid\<rparr>,
           \<lparr>scale = [1, 1, 1], translation = [1, - 1, - 15],
             vertices = projr vertices2, indices = indices2\<rparr>])"
  by (simp add: ConstructModels_def vertices2_value vertices_pyramid_value Let_def)

lemma replicate_4: "replicate 4 x = [x, x, x, x]"
  by (simp add: numeral_eq_Suc)

lemma indices2_max: "Max (set indices2) = 7"
  by (simp add: indices2_def)

text \<open>
  C10. In ConstructModels the vertex matrix of the cube has 8 columns. The
  assignments labelled Cube Vertex 4 to 7 all write to columns 0 to 3, so when the
  cube is constructed and uploaded its columns 0 to 3 hold the positions given for
  vertices 4 to 7, its columns 4 to 7 have never been assigned, and its index list
  refers to indices up to 7.
\<close>

theorem cube_columns_4_to_7_unassigned:
  "map (\<lambda>(startRow, startCol, blockRows, blockCols, v). startCol) cube_vertex_4_to_7 =
     [0, 0, 0, 1, 1, 1, 2, 2, 2, 3, 3, 3]
   \<and> (\<exists>pyramid cube.
        ConstructModels [] =
          ([SetVerticesIntoGpu pyramid, SetVerticesIntoGpu cube], Inr [pyramid, cube])
        \<and> length (vertices cube) = 8
        \<and> map (take 3) (take 4 (vertices cube)) =
            [[Some 0, Some 2, Some 0], [Some 2, Some 2, Some 0],
             [Some 2, Some 2, Some 2], [Some 0, Some 2, Some 2]]
        \<and> drop 4 (vertices cube) = replicate 4 (replicate 8 None)
        \<and> indices cube = indices2
        \<and> Max (set (indices cube)) = 7)"
proof (intro conjI exI)
  show "map (\<lambda>(startRow, startCol, blockRows, blockCols, v). startCol) cube_vertex_4_to_7 =
     [0, 0, 0, 1, 1, 1, 2, 2, 2, 3, 3, 3]"
    by (simp add: cube_vertex_4_to_7_def)
  show "ConstructModels [] =
     ([SetVerticesIntoGpu \<lparr>scale = [1, 1, 1], translation = [- 3, - 1, - 15],
                            vertices = projr vertices_pyramid, indices = indices_pyramid\<rparr>,
       SetVerticesIntoGpu \<lparr>scale = [1, 1, 1], translation = [1, - 1, - 15],
                            vertices = projr vertices2, indices = indices2\<rparr>],
      Inr [\<lparr>scale = [1, 1, 1], translation = [- 3, - 1, - 15],
             vertices = projr vertices_pyramid, indices = indices_pyramid\<rparr>,
           \<lparr>scale = [1, 1, 1], translation = [1, - 1, - 15],
             vertices = projr vertices2, indices = indices2\<rparr>])"
    by (rule ConstructModels_value)
qed (simp_all add: vertices2_value indices2_max replicate_4)

section \<open>Properties of main\<close>

subsection \<open>The render loop\<close>

lemma draw_models_zip:
  "i + length ms \<le> length tex \<Longrightarrow>
   draw_models sp P V tex i ms = (map (\<lambda>(m, t). Draw m P V t) (zip ms (drop i tex)), None)"
proof (induction ms arbitrary: i)
  case Nil
  then show ?case by simp
next
  case (Cons m ms)
  then have i: "i < length tex" and rest: "Suc i + length ms \<le> length tex" by simp_all
  from i have "drop i tex = tex ! i # drop (Suc i) tex" by (simp add: Cons_nth_drop_Suc)
  with Cons.IH [OF rest] i show ?case by simp
qed

lemma RenderScene_ok:
  "length ms \<le> length tex \<Longrightarrow>
   RenderScene sp P V ms tex =
     (ClearTheFrameBuffer @ [Use sp, glPolygonMode GL_FRONT_AND_BACK GL_LINE] @
      map (\<lambda>(m, t). Draw m P V t) (zip ms tex) @ [glBindVertexArray 0], None)"
  by (simp add: RenderScene_def draw_models_zip [where i = 0, simplified])

lemma loop_body_ok:
  "length ms \<le> length tex \<Longrightarrow>
   loop_body w i s sp P V ms tex =
     (ClearTheFrameBuffer @ [Use sp, glPolygonMode GL_FRONT_AND_BACK GL_LINE] @
      map (\<lambda>(m, t). Draw m P V t) (zip ms tex) @
      [glBindVertexArray 0, glfwSwapBuffers, glfwPollEvents], glfwPollEvents_runs w i s)"
  by (simp add: loop_body_def RenderScene_ok)

text \<open>
  C1, as worded, against the code. With W and A held, the loop body of the spec makes
  the camera controller move before it renders; the loop body of main hands the state
  to the poll as it found it. In the state main starts from, where both pointers are
  still null, the loop body of the spec stops at once with a null pointer dereference,
  while the loop body of main renders the frame. So the two differ.
\<close>

theorem loop_body_differs_from_spec:
  "snd (loop_body world_one_frame 0 state_W_A 1 (projection world_one_frame) view
          (projr (snd (ConstructModels []))) [1, 2]) =
     Inr (state_W_A\<lparr>window_should_close := True\<rparr>)
   \<and> snd (spec_loop_body world_one_frame 0 state_W_A 1 (projection world_one_frame) view
          (projr (snd (ConstructModels []))) [1, 2]) =
     Inr (state_W_A\<lparr>camera_controller_ptr :=
            Some \<lparr>rotation_sensitivity = 1 / 10, calls = [MoveFront, MoveLeft]\<rparr>,
          window_should_close := True\<rparr>)
   \<and> snd (loop_body world_one_frame 0 initial_state 1 (projection world_one_frame) view
          (projr (snd (ConstructModels []))) [1, 2]) =
     Inr (initial_state\<lparr>window_should_close := True\<rparr>)
   \<and> spec_loop_body world_one_frame 0 initial_state 1 (projection world_one_frame) view
          (projr (snd (ConstructModels []))) [1, 2] = ([], Inl NullPointerDereference)
   \<and> loop_body world_one_frame 0 state_W_A 1 (projection world_one_frame) view
          (projr (snd (ConstructModels []))) [1, 2] \<noteq>
     spec_loop_body world_one_frame 0 state_W_A 1 (projection world_one_frame) view
          (projr (snd (ConstructModels []))) [1, 2]"
proof -
  have ua: "UpdateCameraPose state_W_A =
     Inr (state_W_A\<lparr>camera_controller_ptr :=
            Some \<lparr>rotation_sensitivity = 1 / 10, calls = [MoveFront, MoveLeft]\<rparr>\<rparr>)"
    by (simp add: UpdateCameraPose_def move_if_held_def movement_vector_at_def
        controller_call_through_ptr_def invoke_def glfw_consts state_W_A_def state_keys_def
        initial_state_def)
  have ui: "UpdateCameraPose initial_state = Inl NullPointerDereference"
    by (simp add: UpdateCameraPose_def move_if_held_def movement_vector_at_def initial_state_def)
  have a: "snd (loop_body world_one_frame 0 state_W_A 1 (projection world_one_frame) view
          (projr (snd (ConstructModels []))) [1, 2]) =
     Inr (state_W_A\<lparr>window_should_close := True\<rparr>)"
    by (simp add: loop_body_ok ConstructModels_value world_one_frame_def)
  have b: "snd (spec_loop_body world_one_frame 0 state_W_A 1 (projection world_one_frame) view
          (projr (snd (ConstructModels []))) [1, 2]) =
     Inr (state_W_A\<lparr>camera_controller_ptr :=
            Some \<lparr>rotation_sensitivity = 1 / 10, calls = [MoveFront, MoveLeft]\<rparr>,
          window_should_close := True\<rparr>)"
    by (simp add: spec_loop_body_def ua world_one_frame_def)
  have c: "snd (loop_body world_one_frame 0 initial_state 1 (projection world_one_frame) view
          (projr (snd (ConstructModels []))) [1, 2]) =
     Inr (initial_state\<lparr>window_should_close := True\<rparr>)"
    by (simp add: loop_body_ok ConstructModels_value world_one_frame_def)
  have d: "spec_loop_body world_one_frame 0 initial_state 1 (projection world_one_frame) view
          (projr (snd (ConstructModels []))) [1, 2] = ([], Inl NullPointerDereference)"
    by (simp add: spec_loop_body_def ui)
  have "state_W_A\<lparr>window_should_close := True\<rparr> \<noteq>
     state_W_A\<lparr>camera_controller_ptr :=
            Some \<lparr>rotation_sensitivity = 1 / 10, calls = [MoveFront, MoveLeft]\<rparr>,
          window_should_close := True\<rparr>"
    by (simp add: state_W_A_def state_keys_def initial_state_def)
  with a b have e: "loop_body world_one_frame 0 state_W_A 1 (projection world_one_frame) view
          (projr (snd (ConstructModels []))) [1, 2] \<noteq>
     spec_loop_body world_one_frame 0 state_W_A 1 (projection world_one_frame) view
          (projr (snd (ConstructModels []))) [1, 2]"
    by (metis sum.inject(2))
  from a b c d e show ?thesis by blast
qed

text \<open>
  C1, amended. On every iteration of the render loop, that is while the window has
  not been asked to close, main evaluates the loop condition, clears the buffers,
  activates the shader program, sets the wireframe polygon mode, draws every model with
  the texture of the same index, unbinds the vertex array, presents the frame and polls
  input events, in that order; the state of the callbacks reaches the poll unchanged,
  so the camera pose is not updated from the held keys.
\<close>

theorem render_loop_iteration:
  assumes "\<not> window_should_close s" and "length models_to_draw \<le> length texture_ids"
  shows "render_loop (Suc fuel) w i s sp proj vw models_to_draw texture_ids =
     (case glfwPollEvents_runs w i s of
        Inl e \<Rightarrow>
          Some (glfwWindowShouldClose # ClearTheFrameBuffer @
                [Use sp, glPolygonMode GL_FRONT_AND_BACK GL_LINE] @
                map (\<lambda>(m, t). Draw m proj vw t) (zip models_to_draw texture_ids) @
                [glBindVertexArray 0, glfwSwapBuffers, glfwPollEvents], Inl e)
      | Inr s1 \<Rightarrow>
          (case render_loop fuel w (Suc i) s1 sp proj vw models_to_draw texture_ids of
             None \<Rightarrow> None
           | Some (rest, r) \<Rightarrow>
               Some (glfwWindowShouldClose # ClearTheFrameBuffer @
                     [Use sp, glPolygonMode GL_FRONT_AND_BACK GL_LINE] @
                     map (\<lambda>(m, t). Draw m proj vw t) (zip models_to_draw texture_ids) @
                     [glBindVertexArray 0, glfwSwapBuffers, glfwPollEvents] @ rest, r)))"
  using assms by (simp add: loop_body_ok split: sum.splits option.splits)

theorem render_loop_iteration_witness:
  "render_loop (Suc (Suc 0)) world_one_frame 0 initial_state 1 (projection world_one_frame) view
     (projr (snd (ConstructModels []))) [1, 2] =
   Some (glfwWindowShouldClose # ClearTheFrameBuffer @
         [Use 1, glPolygonMode GL_FRONT_AND_BACK GL_LINE] @
         map (\<lambda>(m, t). Draw m (projection world_one_frame) view t)
           (zip (projr (snd (ConstructModels []))) [1, 2]) @
         [glBindVertexArray 0, glfwSwapBuffers, glfwPollEvents, glfwWindowShouldClose],
         Inr (initial_state\<lparr>window_should_close := True\<rparr>))"
proof -
  have still_open: "\<not> window_should_close initial_state"
    by (simp add: initial_state_def)
  have len: "length (projr (snd (ConstructModels []))) \<le> length [1 :: nat, 2]"
    by (simp add: ConstructModels_value)
  have poll: "glfwPollEvents_runs world_one_frame 0 initial_state =
              Inr (initial_state\<lparr>window_should_close := True\<rparr>)"
    by (simp add: world_one_frame_def)
  show ?thesis
    using render_loop_iteration [OF still_open len, of "Suc 0" world_one_frame 0 1
        "projection world_one_frame" view]
    by (simp add: poll)
qed

text \<open>A whole run: every initialisation step succeeds, one frame is rendered, and the
  first poll asks the window to close.\<close>

lemma main_one_frame_run:
  "main (Suc (Suc 0)) world_one_frame =
     Some ([ParseCommandLineFlags, InitGoogleLogging, glfwInit, glfwSetErrorCallback] @
           SetWindowHints @
           [glfwCreateWindow 640 480 ''Assignment 4'', glfwMakeContextCurrent,
            glfwSwapInterval 1, glfwSetKeyCallback, glewInit,
            glfwGetFramebufferSize, glViewport 0 0 640 480,
            LoadVertexShaderFromString, LoadFragmentShaderFromString, ShaderProgram_Create] @
           fst (ConstructModels []) @
           snd (LoadTexture world_one_frame 0 ''brick.bmp'') @
           snd (LoadTexture world_one_frame 1 ''stone.bmp'') @
           [glfwWindowShouldClose] @ ClearTheFrameBuffer @
           [Use 1, glPolygonMode GL_FRONT_AND_BACK GL_LINE] @
           map (\<lambda>(m, t). Draw m (projection world_one_frame) Matrix4f_Identity t)
             (zip (projr (snd (ConstructModels []))) [1, 2]) @
           [glBindVertexArray 0, glfwSwapBuffers, glfwPollEvents, glfwWindowShouldClose] @
           DeleteModels (projr (snd (ConstructModels []))) @
           [glfwDestroyWindow, glfwTerminate], Inr 0)"
proof -
  have w: "glfwInit_returns world_one_frame" "glfwCreateWindow_returns world_one_frame"
    "glewInit_returns_GLEW_OK world_one_frame" "Create_outcome world_one_frame = Linked 0"
    "FLAGS_brick_filepath world_one_frame = ''brick.bmp''"
    "FLAGS_stone_filepath world_one_frame = ''stone.bmp''"
    "glfwGetFramebufferSize_returns world_one_frame = (640, 480)"
    "glGenTextures_returns world_one_frame = Suc"
    "glfwPollEvents_runs world_one_frame = (\<lambda>i s. Inr (s\<lparr>window_should_close := True\<rparr>))"
    by (simp_all add: world_one_frame_def)
  show ?thesis
    by (simp add: main_def loop_body_ok initial_state_def Let_def w ConstructModels_value CreateShaderProgram_def Create_def ShaderProgram_new_def
          ConfigureViewPort_def case_prod_unfold kWindowWidth_def kWindowHeight_def view_def
          LoadTexture_def numeral_2_eq_2)
qed

subsection \<open>Errors reported by the windowing library\<close>

text \<open>
  C9. Whenever the error callback of lines 77 to 79 is invoked, whatever the error code
  and the state, the description is logged and the process is terminated: the callback
  never returns to the windowing library. When the library invokes it during the poll
  of a loop iteration, the run ends with that poll, on the fatal error that carries the
  description; no further frame is rendered and main does not return.
\<close>

theorem ErrorCallback_terminates:
  "ErrorCallback err description s = Inl (Fatal description)
   \<and> (\<not> window_should_close s \<and> length models_to_draw \<le> length texture_ids \<and>
      glfwPollEvents_runs w i = ErrorCallback err description \<longrightarrow>
      render_loop (Suc fuel) w i s sp proj vw models_to_draw texture_ids =
        Some (glfwWindowShouldClose # ClearTheFrameBuffer @
              [Use sp, glPolygonMode GL_FRONT_AND_BACK GL_LINE] @
              map (\<lambda>(m, t). Draw m proj vw t) (zip models_to_draw texture_ids) @
              [glBindVertexArray 0, glfwSwapBuffers, glfwPollEvents],
              Inl (Fatal description)))"
  by (simp add: ErrorCallback_def loop_body_ok)

theorem ErrorCallback_terminates_witness:
  "render_loop (Suc (Suc 0)) world_error 0 initial_state 1 (projection world_error) view
     (projr (snd (ConstructModels []))) [1, 2] =
   Some (glfwWindowShouldClose # ClearTheFrameBuffer @
         [Use 1, glPolygonMode GL_FRONT_AND_BACK GL_LINE] @
         map (\<lambda>(m, t). Draw m (projection world_error) view t)
           (zip (projr (snd (ConstructModels []))) [1, 2]) @
         [glBindVertexArray 0, glfwSwapBuffers, glfwPollEvents],
         Inl (Fatal ''The GLFW library is not initialized''))"
proof -
  have still_open: "\<not> window_should_close initial_state"
    by (simp add: initial_state_def)
  have len: "length (projr (snd (ConstructModels []))) \<le> length [1 :: nat, 2]"
    by (simp add: ConstructModels_value)
  have poll: "glfwPollEvents_runs world_error 0 =
              ErrorCallback 65537 ''The GLFW library is not initialized''"
    by (simp add: world_error_def)
  show ?thesis
    using ErrorCallback_terminates [of 65537 "''The GLFW library is not initialized''"
        initial_state "projr (snd (ConstructModels []))" "[1, 2]" world_error 0 "Suc 0" 1
        "projection world_error" view] still_open len poll
    by simp
qed

subsection \<open>The view matrix\<close>

lemma draws_with_view_simps [simp]:
  "draws_with_view V (Draw m p v t) = (v = V)"
  "draws_with_view V (ParseCommandLineFlags)"
  "draws_with_view V (InitGoogleLogging)"
  "draws_with_view V (glfwInit)"
  "draws_with_view V (glfwSetErrorCallback)"
  "draws_with_view V (glfwWindowHint x7_1 x7_2)"
  "draws_with_view V (glfwCreateWindow x8_1 x8_2 x8_3)"
  "draws_with_view V (glfwTerminate)"
  "draws_with_view V (glfwMakeContextCurrent)"
  "draws_with_view V (glfwSwapInterval x11_1)"
  "draws_with_view V (glfwSetKeyCallback)"
  "draws_with_view V (glewInit)"
  "draws_with_view V (cerr x14_1)"
  "draws_with_view V (cout x15_1)"
  "draws_with_view V (glfwGetFramebufferSize)"
  "draws_with_view V (glViewport x17_1 x17_2 x17_3 x17_4)"
  "draws_with_view V (LoadVertexShaderFromString)"
  "draws_with_view V (LoadFragmentShaderFromString)"
  "draws_with_view V (ShaderProgram_Create)"
  "draws_with_view V (SetVerticesIntoGpu x21_1)"
  "draws_with_view V (CImg_load x22_1)"
  "draws_with_view V (CImg_permute_axes x23_1)"
  "draws_with_view V (glGenTextures)"
  "draws_with_view V (glBindTexture x25_1 x25_2)"
  "draws_with_view V (glTexParameteri x26_1 x26_2 x26_3)"
  "draws_with_view V (glTexImage2D x27_1 x27_2 x27_3 x27_4 x27_5 x27_6 x27_7 x27_8)"
  "draws_with_view V (glGenerateMipmap x28_1)"
  "draws_with_view V (glEnable x29_1)"
  "draws_with_view V (glClearColor x30_1 x30_2 x30_3 x30_4)"
  "draws_with_view V (glClear x31_1)"
  "draws_with_view V (Use x32_1)"
  "draws_with_view V (glPolygonMode x33_1 x33_2)"
  "draws_with_view V (glBindVertexArray x34_1)"
  "draws_with_view V (glfwWindowShouldClose)"
  "draws_with_view V (glfwSwapBuffers)"
  "draws_with_view V (glfwPollEvents)"
  "draws_with_view V (delete_Model x38_1)"
  "draws_with_view V (glfwDestroyWindow)"
  by (simp_all add: draws_with_view_def)

lemma draw_models_views:
  "list_all (draws_with_view V) (fst (draw_models sp P V tex i ms))"
  by (induction ms arbitrary: i) (simp_all add: case_prod_unfold Let_def)

lemma RenderScene_views:
  "list_all (draws_with_view V) (fst (RenderScene sp P V ms tex))"
  using draw_models_views [of V sp P tex 0 ms]
  by (simp add: RenderScene_def ClearTheFrameBuffer_def Let_def
        case_prod_unfold split: option.splits)

lemma loop_body_views:
  "list_all (draws_with_view V) (fst (loop_body w i s sp P V ms tex))"
  using RenderScene_views [of V sp P ms tex]
  by (simp add: loop_body_def case_prod_unfold split: option.splits)

lemma render_loop_views:
  "render_loop fuel w i s sp P V ms tex = Some (tr, r) \<Longrightarrow> list_all (draws_with_view V) tr"
proof (induction fuel arbitrary: i s tr r)
  case 0
  then show ?case by simp
next
  case (Suc fuel)
  show ?case
  proof (cases "window_should_close s")
    case True
    with Suc.prems show ?thesis by auto
  next
    case False
    obtain es x where lb: "loop_body w i s sp P V ms tex = (es, x)"
      by (cases "loop_body w i s sp P V ms tex")
    have es: "list_all (draws_with_view V) es"
      using loop_body_views [of V w i s sp P ms tex] lb by simp
    show ?thesis
    proof (cases x)
      case (Inl e)
      with Suc.prems False lb es show ?thesis by auto
    next
      case (Inr s1)
      with Suc.prems False lb obtain rest where
        rl: "render_loop fuel w (Suc i) s1 sp P V ms tex = Some (rest, r)"
        and tr: "tr = glfwWindowShouldClose # es @ rest"
        by (auto split: option.splits)
      from Suc.IH [OF rl] es tr show ?thesis by simp
    qed
  qed
qed

text \<open>
  C2. In every run of main, whatever its length and outcome, every Draw call is passed
  the identity matrix as view matrix: the view is the constant local of main, and no
  value derived from the camera controller reaches a draw call.
\<close>

theorem main_view_is_identity:
  "main fuel w = Some (tr, r) \<Longrightarrow> list_all (draws_with_view Matrix4f_Identity) tr"
  by (auto simp: main_def Let_def CreateShaderProgram_def Create_def ShaderProgram_new_def
        ConstructModels_def LoadTexture_def ConfigureViewPort_def SetWindowHints_def
        DeleteModels_def view_def comp_def
      split: if_splits prod.splits option.splits sum.splits create_outcome.splits
      dest!: render_loop_views)

theorem main_view_is_identity_witness:
  "\<exists>tr. main (Suc (Suc 0)) world_one_frame = Some (tr, Inr 0) \<and>
        list_all (draws_with_view Matrix4f_Identity) tr \<and>
        (\<exists>m p t. Draw m p Matrix4f_Identity t \<in> set tr)"
proof -
  obtain tr where tr: "main (Suc (Suc 0)) world_one_frame = Some (tr, Inr 0)"
    using main_one_frame_run by blast
  have "Draw (hd (projr (snd (ConstructModels [])))) (projection world_one_frame)
          Matrix4f_Identity 1 \<in> set tr"
    using tr unfolding main_one_frame_run by (auto simp: ConstructModels_value)
  with main_view_is_identity [OF tr] tr show ?thesis by blast
qed

subsection \<open>The projection matrix\<close>

text \<open>
  C3. The aspect ratio that main passes to ComputePerspectiveProjectionMatrix is 1,
  not 640/480: the two window dimensions are divided as ints before the conversion to
  float. The other three arguments are the radians of 45 degrees, 0.1 and 20.
\<close>

theorem main_aspect_ratio_is_one:
  "aspect_ratio = 1 \<and> aspect_ratio \<noteq> 640 / 480
   \<and> projection w =
       ComputePerspectiveProjectionMatrix w (ConvertDegreesToRadians w 45) 1 (1 / 10) 20
   \<and> projection world_one_frame = [[45 * (355 / 113) / 180, 1, 1 / 10, 20]]"
  by (simp add: aspect_ratio_def kWindowWidth_def kWindowHeight_def signed_divide_int_def
        projection_def field_of_view_def near_plane_def far_plane_def world_one_frame_def)

subsection \<open>Textures and exit status\<close>

lemma loaded_files_append [simp]: "loaded_files (a @ b) = loaded_files a @ loaded_files b"
  by (induction a) (simp_all split: event.splits)

lemma draw_models_loads_nothing: "loaded_files (fst (draw_models sp P V tex i ms)) = []"
  by (induction ms arbitrary: i) (simp_all add: case_prod_unfold Let_def)

lemma loop_body_loads_nothing: "loaded_files (fst (loop_body w i s sp P V ms tex)) = []"
  using draw_models_loads_nothing [of sp P V tex 0 ms]
  by (simp add: loop_body_def RenderScene_def ClearTheFrameBuffer_def Let_def case_prod_unfold
        split: option.splits)

lemma render_loop_loads_nothing:
  "render_loop fuel w i s sp P V ms tex = Some (tr, r) \<Longrightarrow> loaded_files tr = []"
proof (induction fuel arbitrary: i s tr r)
  case 0
  then show ?case by simp
next
  case (Suc fuel)
  show ?case
  proof (cases "window_should_close s")
    case True
    with Suc.prems show ?thesis by auto
  next
    case False
    obtain es x where lb: "loop_body w i s sp P V ms tex = (es, x)"
      by (cases "loop_body w i s sp P V ms tex")
    have es: "loaded_files es = []"
      using loop_body_loads_nothing [of w i s sp P V ms tex] lb by simp
    show ?thesis
    proof (cases x)
      case (Inl e)
      with Suc.prems False lb es show ?thesis by auto
    next
      case (Inr s1)
      with Suc.prems False lb obtain rest where
        rl: "render_loop fuel w (Suc i) s1 sp P V ms tex = Some (rest, r)"
        and tr: "tr = glfwWindowShouldClose # es @ rest"
        by (auto split: option.splits)
      from Suc.IH [OF rl] es tr show ?thesis by simp
    qed
  qed
qed

lemma main_loaded_files:
  "main fuel w = Some (tr, Inr 0) \<Longrightarrow>
   loaded_files tr = [FLAGS_brick_filepath w, FLAGS_stone_filepath w]"
  by (auto simp: main_def Let_def CreateShaderProgram_def Create_def ShaderProgram_new_def
        ConstructModels_def LoadTexture_def ConfigureViewPort_def SetWindowHints_def
        DeleteModels_def comp_def
      split: if_splits prod.splits option.splits sum.splits create_outcome.splits
      dest!: render_loop_loads_nothing)

lemma render_loop_closes:
  assumes len: "length ms \<le> length tex"
  shows "state_at_iteration w i = Inr s \<Longrightarrow> (\<forall>j. i \<le> j \<and> j < n \<longrightarrow> keeps_open w j) \<Longrightarrow>
         asks_to_close w n \<Longrightarrow> i \<le> n \<Longrightarrow> n - i < fuel \<Longrightarrow>
         \<exists>tr sn. render_loop fuel w i s sp P V ms tex = Some (tr, Inr sn)"
proof (induction "n - i" arbitrary: i s fuel)
  case 0
  then have "i = n" by simp
  with 0 have "window_should_close s" by (simp add: asks_to_close_def)
  moreover from 0 obtain f where "fuel = Suc f" by (cases fuel) auto
  ultimately show ?case by simp
next
  case (Suc d)
  then have lt: "i < n" by simp
  with Suc.prems have ko: "keeps_open w i" by simp
  with Suc.prems(1) have open_s: "\<not> window_should_close s" by (simp add: keeps_open_def)
  have "\<exists>s1. state_at_iteration w (Suc i) = Inr s1"
  proof (cases "Suc i = n")
    case True
    with Suc.prems(3) show ?thesis by (auto simp: asks_to_close_def split: sum.splits)
  next
    case False
    with lt Suc.prems(2) have "keeps_open w (Suc i)" by simp
    then show ?thesis by (auto simp: keeps_open_def split: sum.splits)
  qed
  then obtain s1 where s1: "state_at_iteration w (Suc i) = Inr s1" by blast
  with Suc.prems(1) have poll: "glfwPollEvents_runs w i s = Inr s1" by simp
  from Suc.prems obtain f where f: "fuel = Suc f" by (cases fuel) auto
  have "\<exists>tr sn. render_loop f w (Suc i) s1 sp P V ms tex = Some (tr, Inr sn)"
  proof (rule Suc.hyps(1))
    show "d = n - Suc i" using Suc.hyps(2) by simp
    show "state_at_iteration w (Suc i) = Inr s1" by (rule s1)
    show "\<forall>j. Suc i \<le> j \<and> j < n \<longrightarrow> keeps_open w j" using Suc.prems(2) by simp
    show "asks_to_close w n" by (rule Suc.prems(3))
    show "Suc i \<le> n" using lt by simp
    show "n - Suc i < f" using Suc.prems(5) f lt by simp
  qed
  then obtain rest sn where "render_loop f w (Suc i) s1 sp P V ms tex = Some (rest, Inr sn)"
    by blast
  with open_s poll f len show ?case by (simp add: loop_body_ok)
qed

lemma main_graceful:
  assumes "glfwInit_returns w" and "glfwCreateWindow_returns w"
    and "glewInit_returns_GLEW_OK w" and "Create_outcome w = Linked k"
    and "\<forall>i < n. keeps_open w i" and "asks_to_close w n" and "n < fuel"
  shows "\<exists>tr. main fuel w = Some (tr, Inr 0)"
proof -
  let ?ms = "[\<lparr>scale = [1, 1, 1], translation = [- 3, - 1, - 15],
               vertices = projr vertices_pyramid, indices = indices_pyramid\<rparr>,
             \<lparr>scale = [1, 1, 1], translation = [1, - 1, - 15],
               vertices = projr vertices2, indices = indices2\<rparr>]"
  let ?tex = "[glGenTextures_returns w 0, glGenTextures_returns w 1]"
  have "\<exists>tr sn. render_loop fuel w 0 initial_state (Suc k) (projection w) view ?ms ?tex =
          Some (tr, Inr sn)"
    using assms(5-7) by (intro render_loop_closes [where n = n]) simp_all
  then obtain tr sn where
    "render_loop fuel w 0 initial_state (Suc k) (projection w) view ?ms ?tex = Some (tr, Inr sn)"
    by blast
  with assms(1-4) show ?thesis
    by (simp add: main_def Let_def CreateShaderProgram_def Create_def ShaderProgram_new_def
          ConstructModels_value LoadTexture_def case_prod_unfold)
qed

lemma state_at_iteration_one_frame:
  "keeps_open world_one_frame 0" "asks_to_close world_one_frame (Suc 0)"
  by (simp_all add: keeps_open_def asks_to_close_def world_one_frame_def initial_state_def)

lemma state_at_iteration_texture_flags:
  "keeps_open world_texture_flags 0" "asks_to_close world_texture_flags (Suc 0)"
  by (simp_all add: keeps_open_def asks_to_close_def world_texture_flags_def
        world_one_frame_def initial_state_def)

text \<open>
  C4. In a run started with \<open>texture1_filepath\<close> set to a.bmp and
  \<open>texture2_filepath\<close> set to b.bmp, main returns 0 having opened the files named by
  \<open>FLAGS_brick_filepath\<close> and \<open>FLAGS_stone_filepath\<close>, and neither a.bmp nor
  b.bmp.
\<close>

theorem main_ignores_texture_flags:
  "\<exists>tr. main 2 world_texture_flags = Some (tr, Inr 0)
     \<and> loaded_files tr = [''brick.bmp'', ''stone.bmp'']
     \<and> FLAGS_texture1_filepath world_texture_flags = ''a.bmp''
     \<and> FLAGS_texture2_filepath world_texture_flags = ''b.bmp''"
proof -
  have "\<exists>tr. main 2 world_texture_flags = Some (tr, Inr 0)"
    using state_at_iteration_texture_flags
    by (intro main_graceful [where k = 0 and n = 1])
       (simp_all add: world_texture_flags_def world_one_frame_def)
  then obtain tr where tr: "main 2 world_texture_flags = Some (tr, Inr 0)" by blast
  have "loaded_files tr = [''brick.bmp'', ''stone.bmp'']"
    using main_loaded_files [OF tr] by (simp add: world_texture_flags_def world_one_frame_def)
  moreover have "FLAGS_texture1_filepath world_texture_flags = ''a.bmp''"
    "FLAGS_texture2_filepath world_texture_flags = ''b.bmp''"
    by (simp_all add: FLAGS_texture1_filepath_def FLAGS_texture2_filepath_def DEFINE_string_def
          world_texture_flags_def)
  ultimately show ?thesis using tr by blast
qed

text \<open>
  C5. main returns -1, without ever evaluating the condition of the render loop, when
  glfwInit fails, when the window is not created, when glewInit fails, and when the
  shader program fails to compile or link. When all of these succeed and the window is
  asked to close at the loop condition of some iteration, none before it, main returns
  0, given fuel for that many iterations.
\<close>

theorem main_exit_status:
  "(\<not> glfwInit_returns w \<longrightarrow>
      (\<exists>tr. main fuel w = Some (tr, Inr (- 1)) \<and> glfwWindowShouldClose \<notin> set tr))
   \<and> (glfwInit_returns w \<and> \<not> glfwCreateWindow_returns w \<longrightarrow>
      (\<exists>tr. main fuel w = Some (tr, Inr (- 1)) \<and> glfwWindowShouldClose \<notin> set tr))
   \<and> (glfwInit_returns w \<and> glfwCreateWindow_returns w \<and> \<not> glewInit_returns_GLEW_OK w \<longrightarrow>
      (\<exists>tr. main fuel w = Some (tr, Inr (- 1)) \<and> glfwWindowShouldClose \<notin> set tr))
   \<and> (glfwInit_returns w \<and> glfwCreateWindow_returns w \<and> glewInit_returns_GLEW_OK w \<and>
      Create_outcome w = CompileOrLinkFailure diagnostic \<longrightarrow>
      (\<exists>tr. main fuel w = Some (tr, Inr (- 1)) \<and> glfwWindowShouldClose \<notin> set tr))
   \<and> (glfwInit_returns w \<and> glfwCreateWindow_returns w \<and> glewInit_returns_GLEW_OK w \<and>
      Create_outcome w = Linked k \<and>
      (\<forall>i < n. keeps_open w i) \<and> asks_to_close w n \<and> n < fuel \<longrightarrow>
      (\<exists>tr. main fuel w = Some (tr, Inr 0)))"
proof (intro conjI impI)
  assume "\<not> glfwInit_returns w"
  then show "\<exists>tr. main fuel w = Some (tr, Inr (- 1)) \<and> glfwWindowShouldClose \<notin> set tr"
    by (simp add: main_def)
next
  assume "glfwInit_returns w \<and> \<not> glfwCreateWindow_returns w"
  then show "\<exists>tr. main fuel w = Some (tr, Inr (- 1)) \<and> glfwWindowShouldClose \<notin> set tr"
    by (simp add: main_def SetWindowHints_def)
next
  assume "glfwInit_returns w \<and> glfwCreateWindow_returns w \<and> \<not> glewInit_returns_GLEW_OK w"
  then show "\<exists>tr. main fuel w = Some (tr, Inr (- 1)) \<and> glfwWindowShouldClose \<notin> set tr"
    by (simp add: main_def SetWindowHints_def)
next
  assume "glfwInit_returns w \<and> glfwCreateWindow_returns w \<and> glewInit_returns_GLEW_OK w \<and>
      Create_outcome w = CompileOrLinkFailure diagnostic"
  then show "\<exists>tr. main fuel w = Some (tr, Inr (- 1)) \<and> glfwWindowShouldClose \<notin> set tr"
    by (simp add: main_def SetWindowHints_def ConfigureViewPort_def CreateShaderProgram_def
          Create_def ShaderProgram_new_def case_prod_unfold Let_def)
next
  assume "glfwInit_returns w \<and> glfwCreateWindow_returns w \<and> glewInit_returns_GLEW_OK w \<and>
      Create_outcome w = Linked k \<and>
      (\<forall>i < n. keeps_open w i) \<and> asks_to_close w n \<and> n < fuel"
  then show "\<exists>tr. main fuel w = Some (tr, Inr 0)"
    by (intro main_graceful [where k = k and n = n]) simp_all
qed

theorem main_exit_status_witness:
  "(\<exists>tr. main 0 world_no_glfw = Some (tr, Inr (- 1)) \<and> glfwWindowShouldClose \<notin> set tr)
   \<and> (\<exists>tr. main 0 world_no_window = Some (tr, Inr (- 1)) \<and> glfwWindowShouldClose \<notin> set tr)
   \<and> (\<exists>tr. main 0 world_no_glew = Some (tr, Inr (- 1)) \<and> glfwWindowShouldClose \<notin> set tr)
   \<and> (\<exists>tr. main 0 world_no_shader = Some (tr, Inr (- 1)) \<and> glfwWindowShouldClose \<notin> set tr)
   \<and> (\<exists>tr. main 2 world_one_frame = Some (tr, Inr 0))"
  using main_exit_status [of world_no_glfw 0]
    main_exit_status [of world_no_window 0]
    main_exit_status [of world_no_glew 0]
    main_exit_status [of world_no_shader 0 "''0:1: syntax error''"]
    main_exit_status [of world_one_frame 2 _ 0 1] state_at_iteration_one_frame
  by (simp add: world_no_glfw_def world_no_window_def world_no_glew_def world_no_shader_def
        world_one_frame_def)

end
